theory Spec2Isabelle
  imports Main "HOL-Library.Word"
begin

section \<open>The media library scan: \<^verbatim>\<open>src/database/Database.cpp\<close>\<close>

subsection \<open>Data model\<close>

text \<open>
  The scan code works on a Wt::Dbo session. The persisted contents of that session are
  modelled as a record of tables; every table is a list of rows, and a
  \<^verbatim>\<open>Wt::Dbo::ptr\<close> is the id of the row it points to (\<open>None\<close> for the null ptr).
  Times are seconds since the epoch (\<^verbatim>\<open>from_time_t\<close>), the checksum is the byte vector
  that \<^verbatim>\<open>computeCrc\<close> fills.
\<close>

type_synonym path = string
type_synonym ptime = int
type_synonym time_duration = int
type_synonym checksum = "8 word list"

text \<open>
  \<^verbatim>\<open>MetaData::Items\<close> is a map from tag kinds to \<^verbatim>\<open>boost::any\<close>; the source reads each
  kind at one fixed type, so the map is a record with one optional, typed field per kind
  (\<open>None\<close>: the kind is not in the map).
\<close>

record items =
  Title :: "string option"
  Artist :: "string option"
  Album :: "string option"
  Genre :: "string list option"
  TrackNumber :: "nat option"
  DiscNumber :: "nat option"
  Duration :: "time_duration option"
  CreationTime :: "ptime option"

text \<open>
  Modelled from the spec: the class \<^verbatim>\<open>Track\<close> is not under src. Its fields are the ones
  \<^verbatim>\<open>Database.cpp\<close> reads and writes through getters and setters (the spec's Track
  attributes: file path, last-write timestamp, content checksum, title, track and disc
  numbers, duration, dates, one Artist and one Release reference), and the per-Track
  \<^verbatim>\<open>scanVersion\<close> of the spec, the column \<^verbatim>\<open>scan_version\<close> of the track table in
  \<^verbatim>\<open>Migration.cpp\<close>. \<^verbatim>\<open>Database.cpp\<close> neither reads nor writes that field.
\<close>

record track =
  trackId :: nat
  path :: path
  checksum :: checksum
  lastWriteTime :: ptime
  name :: string
  genreList :: string
  genres :: "nat list"
  artist :: nat
  release :: nat
  trackNumber :: nat
  discNumber :: nat
  duration :: time_duration
  creationTime :: ptime
  scan_version :: nat

text \<open>Artist, Release and Genre rows: an id and a name.\<close>

type_synonym named_row = "nat \<times> string"

record session =
  tracks :: "track list"
  artists :: "named_row list"
  releases :: "named_row list"
  genreRows :: "named_row list"

text \<open>
  What the collaborators answer for one file: the filesystem's last write time, the CRC,
  the metadata parser and the media probe (\<^verbatim>\<open>Transcode::InputMediaFile\<close>). Each of them can
  throw; \<open>None\<close> is the thrown exception, which the \<^verbatim>\<open>catch\<close> of the caller receives.
\<close>

record media =
  audioStreams :: nat
  total_seconds :: int

record probe =
  last_write_time :: "ptime option"
  computeCrc :: "checksum option"
  parse :: "items option"
  mediaFile :: "media option"

text \<open>The lines the source writes to \<^verbatim>\<open>std::cout\<close> and \<^verbatim>\<open>std::cerr\<close>.\<close>

datatype msg =
    SkippedLastWrite path
  | SkippedChecksum path
  | Parsing path
  | SkippedNoAudio path
  | SkippedDurationNull path
  | GenreListIs string
  | Adding path
  | Updating path
  | ExceptionWhileParsing path
  | RemovingMissing
  | RemovingFile path
  | RemovingDone

subsection \<open>The entity classes' operations\<close>

text \<open>A new row gets an id that no row of the table has (autoincrement).\<close>

definition newId :: "nat list \<Rightarrow> nat" where
  "newId ids = Suc (fold max ids 0)"

text \<open>
  Modelled from the spec: \<^verbatim>\<open>getByName\<close> and \<^verbatim>\<open>create\<close> of Artist, Release and Genre are
  not under src. The spec: look the entity up by name; if absent, create it. The look-up
  returns the first row with that name or the null ptr, \<open>create\<close> appends a row with a
  new id.
\<close>

definition getByName :: "named_row list \<Rightarrow> string \<Rightarrow> nat option" where
  "getByName rows n = map_option fst (find (\<lambda>r. snd r = n) rows)"

definition create :: "named_row list \<Rightarrow> string \<Rightarrow> nat \<times> named_row list" where
  "create rows n = (let i = newId (map fst rows) in (i, rows @ [(i, n)]))"

text \<open>
  Modelled from the spec: \<^verbatim>\<open>getNone\<close> is not under src. The spec: a well-known sentinel
  row stands for "unspecified" and is shared by all tracks lacking the tag. The model
  returns the row named \<open><None>\<close> and creates it when the table lacks it.
\<close>

definition noneName :: string where
  "noneName = ''<None>''"

definition getNone :: "named_row list \<Rightarrow> nat \<times> named_row list" where
  "getNone rows = (case getByName rows noneName of
       Some i \<Rightarrow> (i, rows)
     | None \<Rightarrow> create rows noneName)"

text \<open>The source's look-up followed by \<open>create\<close> on a null ptr, for one table.\<close>

definition getOrCreate :: "named_row list \<Rightarrow> string \<Rightarrow> nat \<times> named_row list" where
  "getOrCreate rows n = (case getByName rows n of
       Some i \<Rightarrow> (i, rows)
     | None \<Rightarrow> create rows n)"

text \<open>
  Modelled from the spec: \<^verbatim>\<open>Track::getByPath\<close>, \<^verbatim>\<open>Track::create\<close> and \<^verbatim>\<open>Track::getAll\<close> are
  not under src. The look-up returns the first row stored for the path; \<open>create\<close> appends a
  row with a new id that holds the path and the two references, every other field empty or
  zero.
\<close>

definition Track_getByPath :: "session \<Rightarrow> path \<Rightarrow> track option" where
  "Track_getByPath s file = find (\<lambda>t. path t = file) (tracks s)"

definition Track_create :: "session \<Rightarrow> path \<Rightarrow> nat \<Rightarrow> nat \<Rightarrow> nat \<times> session" where
  "Track_create s file a r =
     (let i = newId (map trackId (tracks s)) in
      (i, s\<lparr>tracks := tracks s @
            [\<lparr>trackId = i, path = file, checksum = [], lastWriteTime = 0, name = [],
              genreList = [], genres = [], artist = a, release = r, trackNumber = 0,
              discNumber = 0, duration = 0, creationTime = 0, scan_version = 0\<rparr>]\<rparr>))"

text \<open>
  \<^verbatim>\<open>ptr.remove()\<close> deletes the row the ptr points to; the ptr variable itself stays
  non-null. \<^verbatim>\<open>ptr.modify()->set...\<close> writes the row the ptr points to; on a ptr whose row
  has been removed in this transaction nothing is written (Wt::Dbo does not mark a deleted
  object dirty), so the row stays deleted.
\<close>

definition Track_remove :: "nat \<Rightarrow> session \<Rightarrow> session" where
  "Track_remove i s = s\<lparr>tracks := filter (\<lambda>t. trackId t \<noteq> i) (tracks s)\<rparr>"

definition Track_modify :: "nat \<Rightarrow> (track \<Rightarrow> track) \<Rightarrow> session \<Rightarrow> session" where
  "Track_modify i f s = s\<lparr>tracks := map (\<lambda>t. if trackId t = i then f t else t) (tracks s)\<rparr>"

text \<open>
  \<^verbatim>\<open>file.filename().string()\<close>: the last component of the path (a regular file's path does
  not end with a separator).
\<close>

definition filename :: "path \<Rightarrow> string" where
  "filename file = rev (takeWhile (\<lambda>c. c \<noteq> CHR ''/'') (rev file))"

subsection \<open>\<^verbatim>\<open>Database::processAudioFile\<close>\<close>

text \<open>The loop over the genre names of the tag (look up, create when absent, push back).\<close>

fun resolveGenres :: "named_row list \<Rightarrow> string list \<Rightarrow> nat list \<Rightarrow> nat list \<times> named_row list" where
  "resolveGenres rows [] acc = (acc, rows)"
| "resolveGenres rows (g # gs) acc =
     (let (i, rows') = getOrCreate rows g in resolveGenres rows' gs (acc @ [i]))"

text \<open>The loop that joins the genre names with \<open>", "\<close>.\<close>

definition joinGenres :: "string list \<Rightarrow> string" where
  "joinGenres gl = fold (\<lambda>g acc. (if acc \<noteq> [] then acc @ '', '' else acc) @ g) gl []"

text \<open>
  The blocks of \<^verbatim>\<open>processAudioFile\<close> after the media checks, in the order of the source:
  the Artist block, the Release block, the Genres block and the setters.
\<close>

definition resolveArtist :: "items \<Rightarrow> named_row list \<Rightarrow> nat \<times> named_row list" where
  "resolveArtist its rows =
     (case Artist its of
        Some artistName \<Rightarrow> getOrCreate rows artistName
      | None \<Rightarrow> getNone rows)"

definition resolveRelease :: "items \<Rightarrow> named_row list \<Rightarrow> nat \<times> named_row list" where
  "resolveRelease its rows =
     (case Album its of
        Some albumName \<Rightarrow> getOrCreate rows albumName
      | None \<Rightarrow> getNone rows)"

definition genreNames :: "items \<Rightarrow> string list" where
  "genreNames its = (case Genre its of Some l \<Rightarrow> l | None \<Rightarrow> [])"

definition resolveGenreList :: "items \<Rightarrow> named_row list \<Rightarrow> nat list \<times> named_row list" where
  "resolveGenreList its rows =
     (let (gs, rows1) = resolveGenres rows (genreNames its) []
      in if gs = [] then (let (g, rows2) = getNone rows1 in ([g], rows2)) else (gs, rows1))"

text \<open>
  The setters that \<^verbatim>\<open>processAudioFile\<close> calls on \<^verbatim>\<open>track.modify()\<close>, in order, as one update
  of the Track object. The title is the tag or, without a tag, the file name. The last four
  setters are each guarded by \<^verbatim>\<open>items.find(...) != items.end()\<close>.
\<close>

definition setTrackFields ::
  "path \<Rightarrow> ptime \<Rightarrow> checksum \<Rightarrow> items \<Rightarrow> nat \<Rightarrow> nat \<Rightarrow> nat list \<Rightarrow> track \<Rightarrow> track" where
  "setTrackFields file lwt crc its a r gs t0 =
     (let title = (case Title its of Some n \<Rightarrow> n | None \<Rightarrow> filename file);
          t1 = t0\<lparr>checksum := crc\<rparr>;
          t2 = t1\<lparr>lastWriteTime := lwt\<rparr>;
          t3 = t2\<lparr>name := title\<rparr>;
          t4 = t3\<lparr>genreList := joinGenres (genreNames its)\<rparr>;
          t5 = t4\<lparr>genres := gs\<rparr>;
          t6 = t5\<lparr>artist := a\<rparr>;
          t7 = t6\<lparr>release := r\<rparr>;
          t8 = (case TrackNumber its of Some n \<Rightarrow> t7\<lparr>trackNumber := n\<rparr> | None \<Rightarrow> t7);
          t9 = (case DiscNumber its of Some n \<Rightarrow> t8\<lparr>discNumber := n\<rparr> | None \<Rightarrow> t8);
          t10 = (case Duration its of Some d \<Rightarrow> t9\<lparr>duration := d\<rparr> | None \<Rightarrow> t9)
      in (case CreationTime its of Some c \<Rightarrow> t10\<lparr>creationTime := c\<rparr> | None \<Rightarrow> t10))"

text \<open>
  From the title on to \<^verbatim>\<open>transaction.commit()\<close>. \<open>trk\<close> is the ptr that \<^verbatim>\<open>Track::getByPath\<close>
  returned at the start of the function: null creates a Track, non-null updates the row it
  points to.
\<close>

definition resolveTrack ::
  "path \<Rightarrow> ptime \<Rightarrow> checksum \<Rightarrow> items \<Rightarrow> nat option \<Rightarrow> session \<Rightarrow> session \<times> msg list" where
  "resolveTrack file lwt crc its trk s0 =
     (let (a, artists1) = resolveArtist its (artists s0);
          (r, releases1) = resolveRelease its (releases s0);
          (gs, genres1) = resolveGenreList its (genreRows s0);
          s1 = s0\<lparr>artists := artists1, releases := releases1, genreRows := genres1\<rparr>;
          (i, s2, m) = (case trk of
               None \<Rightarrow> (let (j, s') = Track_create s1 file a r in (j, s', Adding file))
             | Some j \<Rightarrow> (j, s1, Updating file))
      in (Track_modify i (setTrackFields file lwt crc its a r gs) s2,
          [m, GenreListIs (joinGenres (genreNames its))]))"

text \<open>
  The whole function. An exception of a collaborator leaves the \<^verbatim>\<open>try\<close> block before the
  first write, the transaction is rolled back and the \<^verbatim>\<open>catch\<close> prints a line: the session
  is the one the call started with. The three \<^verbatim>\<open>return\<close>s leave the block before any
  write as well. The zero-duration branch removes the row of an existing Track and has no
  \<^verbatim>\<open>return\<close>: control goes on to the title and the rest.
\<close>

definition processAudioFile :: "path \<Rightarrow> probe \<Rightarrow> session \<Rightarrow> session \<times> msg list" where
  "processAudioFile file pr s =
     (case last_write_time pr of
        None \<Rightarrow> (s, [ExceptionWhileParsing file])
      | Some lwt \<Rightarrow>
          (let trk = Track_getByPath s file in
           if (case trk of Some t \<Rightarrow> lastWriteTime t = lwt | None \<Rightarrow> False)
           then (s, [SkippedLastWrite file])
           else
             (case computeCrc pr of
                None \<Rightarrow> (s, [ExceptionWhileParsing file])
              | Some crc \<Rightarrow>
                  if (case trk of Some t \<Rightarrow> checksum t = crc | None \<Rightarrow> False)
                  then (s, [SkippedChecksum file])
                  else
                    (case parse pr of
                       None \<Rightarrow> (s, [Parsing file, ExceptionWhileParsing file])
                     | Some its \<Rightarrow>
                         (case mediaFile pr of
                            None \<Rightarrow> (s, [Parsing file, ExceptionWhileParsing file])
                          | Some mf \<Rightarrow>
                              if audioStreams mf = 0
                              then (s, [Parsing file, SkippedNoAudio file])
                              else
                                (let (s1, ms) =
                                       (if total_seconds mf = 0
                                        then ((case trk of
                                                 Some t \<Rightarrow> Track_remove (trackId t) s
                                               | None \<Rightarrow> s),
                                              [SkippedDurationNull file])
                                        else (s, []));
                                     (s2, ms') = resolveTrack file lwt crc its
                                                   (map_option trackId trk) s1
                                 in (s2, Parsing file # ms @ ms')))))))"

subsection \<open>\<^verbatim>\<open>Database::removeMissingAudioFiles\<close>\<close>

text \<open>
  The filesystem is a parameter: \<open>exists\<close> and \<open>is_regular\<close> are what
  \<^verbatim>\<open>boost::filesystem::exists\<close> and \<^verbatim>\<open>boost::filesystem::is_regular\<close> do for a path. Both
  throw \<^verbatim>\<open>filesystem_error\<close> when the status of the path cannot be read for a reason other
  than the path not being there; \<open>None\<close> is that exception.
\<close>

record filesystem =
  exists :: "path \<Rightarrow> bool option"
  is_regular :: "path \<Rightarrow> bool option"






section \<open>The migration engine: \<^verbatim>\<open>src/src/libs/services/database/impl/Migration.cpp\<close>\<close>

subsection \<open>Data model\<close>

text \<open>
  The store as the migration sees it: the \<^verbatim>\<open>VersionInfo\<close> singleton, the \<^verbatim>\<open>ScanSettings\<close>
  singleton, the connection's foreign-key switch, and everything else, which only SQL
  statements touch. \<open>Unreadable\<close> stands for a store on which \<^verbatim>\<open>find<VersionInfo>()\<close> throws.
  The foreign-key switch is a property of the connection and is outside every transaction.
\<close>

datatype version_table = Unreadable | NoRow | Row nat

text \<open>
  Modelled from the spec: the class \<^verbatim>\<open>ScanSettings\<close> is not under src. The spec: a singleton
  holding a \<^verbatim>\<open>scanVersion\<close> counter and a set of recognized audio file extensions.
\<close>

record scan_settings =
  scanVersion :: nat
  audioFileExtensions :: "string set"

record 'db store =
  foreignKeys :: bool
  versionInfo :: version_table
  scanSettings :: "scan_settings option"
  tables :: 'db

text \<open>
  The exceptions: \<^verbatim>\<open>LmsException\<close> with its message, and an exception of Wt::Dbo (a failed
  SQL statement, or \<^verbatim>\<open>modify()\<close> on a null ptr).
\<close>

datatype error = LmsException string | DboException

definition outdatedMsg :: string where
  "outdatedMsg = ''Outdated database, please rebuild it (delete the .db file and restart)''"

definition binaryOutdatedMsg :: string where
  "binaryOutdatedMsg = ''Server binary outdated, please upgrade it to handle this database''"

subsection \<open>The migration steps\<close>

text \<open>
  A step is the sequence of calls in its branch of the dispatch. The SQL engine is a
  parameter \<open>exec\<close>: it maps a statement and the tables to the new tables, or to \<open>None\<close> when
  the statement throws. The statements are the string literals of the source, character by
  character (a raw string literal starts with its line break). Where the source splices in
  a constant of a header that is not under src, the name of the constant stands in its
  place between angle brackets. The one bound statement (version 29) is its text with the
  question mark; the value bound to it is \<open>__played_tracks__\<close>.
\<close>

datatype action = Execute string | IncScanVersion | AddAudioFileExtension string

definition sql_7_1 :: string where
  \<open>sql_7_1 =
     ''ALTER TABLE scan_settings ADD similarity_engine_type INTEGER NOT NULL DEFAULT('' @
     ''<ScanSettings::RecommendationEngineType::Clusters>'' @
     '')''\<close>

definition sql_9_1 :: string where
  \<open>sql_9_1 =
     ''\<newline>CREATE TABLE IF NOT EXISTS "track_bookmark" ('' @
     ''\<newline>'' @
     [CHR 0x09] @
     ''"id" integer primary key autoincrement,'' @
     ''\<newline>'' @
     [CHR 0x09] @
     ''"version" integer not null,'' @
     ''\<newline>'' @
     [CHR 0x09] @
     ''"offset" integer,'' @
     ''\<newline>'' @
     [CHR 0x09] @
     ''"comment" text not null,'' @
     ''\<newline>'' @
     [CHR 0x09] @
     ''"track_id" bigint,'' @
     ''\<newline>'' @
     [CHR 0x09] @
     ''"user_id" bigint,'' @
     ''\<newline>'' @
     [CHR 0x09] @
     ''constraint "fk_track_bookmark_track" foreign key ("track_id") references '' @
     ''"track" ("id") on delete cascade deferrable initially deferred,'' @
     ''\<newline>'' @
     [CHR 0x09] @
     ''constraint "fk_track_bookmark_user" foreign key ("user_id") references '' @
     ''"user" ("id") on delete cascade deferrable initially deferred'' @
     ''\<newline>);''\<close>

definition sql_15_1 :: string where
  \<open>sql_15_1 =
     ''ALTER TABLE user ADD ui_theme INTEGER NOT NULL DEFAULT('' @
     ''<User::defaultUITheme>'' @
     '')''\<close>

definition sql_17_1 :: string where
  \<open>sql_17_1 =
     ''\<newline>CREATE TABLE "release_backup" ('' @
     ''\<newline>  "id" integer primary key autoincrement,'' @
     ''\<newline>  "version" integer not null,'' @
     ''\<newline>  "name" text not null,'' @
     ''\<newline>  "mbid" text not null'' @
     ''\<newline>)''\<close>

definition sql_18_1 :: string where
  \<open>sql_18_1 =
     ''\<newline>CREATE TABLE IF NOT EXISTS "subsonic_settings" ('' @
     ''\<newline>  "id" integer primary key autoincrement,'' @
     ''\<newline>  "version" integer not null,'' @
     ''\<newline>  "api_enabled" boolean not null,'' @
     ''\<newline>  "artist_list_mode" integer not null'' @
     ''\<newline>)''\<close>

definition sql_19_1 :: string where
  \<open>sql_19_1 =
     ''\<newline>CREATE TABLE "user_backup" ('' @
     ''\<newline>  "id" integer primary key autoincrement,'' @
     ''\<newline>  "version" integer not null,'' @
     ''\<newline>  "type" integer not null,'' @
     ''\<newline>  "login_name" text not null,'' @
     ''\<newline>  "password_salt" text not null,'' @
     ''\<newline>  "password_hash" text not null,'' @
     ''\<newline>  "last_login" text,'' @
     ''\<newline>  "subsonic_transcode_enable" boolean not null,'' @
     ''\<newline>  "subsonic_transcode_format" integer not null,'' @
     ''\<newline>  "subsonic_transcode_bitrate" integer not null,'' @
     ''\<newline>  "subsonic_artist_list_mode" integer not null,'' @
     ''\<newline>  "ui_theme" integer not null,'' @
     ''\<newline>  "cur_playing_track_pos" integer not null,'' @
     ''\<newline>  "repeat_all" boolean not null,'' @
     ''\<newline>  "radio" boolean not null'' @
     ''\<newline>)''\<close>

definition sql_19_2 :: string where
  \<open>sql_19_2 =
     ''INSERT INTO user_backup SELECT id, version, type, login_name, '' @
     ''password_salt, password_hash, last_login, '' @
     ''<User::defaultSubsonicTranscodeEnable>'' @
     '', '' @
     ''<User::defaultSubsonicTranscodeFormat>'' @
     '', '' @
     ''<User::defaultSubsonicTranscodeBitrate>'' @
     '', '' @
     ''<User::defaultSubsonicArtistListMode>'' @
     '', ui_theme, cur_playing_track_pos, repeat_all, radio FROM user''\<close>

definition sql_22_1 :: string where
  \<open>sql_22_1 =
     ''ALTER TABLE track ADD disc_subtitle TEXT NOT NULL DEFAULT '' @
     [CHR 0x27, CHR 0x27]\<close>

definition sql_28_1 :: string where
  \<open>sql_28_1 =
     ''\<newline>CREATE TABLE "user_backup" ('' @
     ''\<newline>  "id" integer primary key autoincrement,'' @
     ''\<newline>  "version" integer not null,'' @
     ''\<newline>  "type" integer not null,'' @
     ''\<newline>  "login_name" text not null,'' @
     ''\<newline>  "password_salt" text not null,'' @
     ''\<newline>  "password_hash" text not null,'' @
     ''\<newline>  "last_login" text,'' @
     ''\<newline>  "subsonic_transcode_enable" boolean not null,'' @
     ''\<newline>  "subsonic_transcode_format" integer not null,'' @
     ''\<newline>  "subsonic_transcode_bitrate" integer not null,'' @
     ''\<newline>  "subsonic_artist_list_mode" integer not null,'' @
     ''\<newline>  "ui_theme" integer not null,'' @
     ''\<newline>  "cur_playing_track_pos" integer not null,'' @
     ''\<newline>  "repeat_all" boolean not null,'' @
     ''\<newline>  "radio" boolean not null'' @
     ''\<newline>)''\<close>

definition sql_28_2 :: string where
  \<open>sql_28_2 =
     ''INSERT INTO user_backup SELECT id, version, type, login_name, '' @
     ''password_salt, password_hash, last_login, subsonic_transcode_enable, '' @
     ''subsonic_transcode_format, subsonic_transcode_bitrate, '' @
     ''subsonic_artist_list_mode, ui_theme, cur_playing_track_pos, repeat_all, '' @
     ''radio FROM user''\<close>

definition sql_29_1 :: string where
  \<open>sql_29_1 =
     ''ALTER TABLE user ADD scrobbler INTEGER NOT NULL DEFAULT('' @
     ''<User::defaultScrobbler>'' @
     '')''\<close>

definition sql_30_1 :: string where
  \<open>sql_30_1 =
     ''\<newline>CREATE TABLE "track_backup" ('' @
     ''\<newline>  "id" integer primary key autoincrement,'' @
     ''\<newline>  "version" integer not null,'' @
     ''\<newline>  "scan_version" integer not null,'' @
     ''\<newline>  "track_number" integer not null,'' @
     ''\<newline>  "disc_number" integer not null,'' @
     ''\<newline>  "name" text not null,'' @
     ''\<newline>  "duration" integer,'' @
     ''\<newline>  "date" integer text,'' @
     ''\<newline>  "original_date" integer text,'' @
     ''\<newline>  "file_path" text not null,'' @
     ''\<newline>  "file_last_write" text,'' @
     ''\<newline>  "file_added" text,'' @
     ''\<newline>  "has_cover" boolean not null,'' @
     ''\<newline>  "mbid" text not null,'' @
     ''\<newline>  "copyright" text not null,'' @
     ''\<newline>  "copyright_url" text not null,'' @
     ''\<newline>  "release_id" bigint, total_disc INTEGER NOT NULL DEFAULT(0), '' @
     ''total_track INTEGER NOT NULL DEFAULT(0), track_replay_gain REAL, '' @
     ''release_replay_gain REAL, disc_subtitle TEXT NOT NULL DEFAULT '' @
     [CHR 0x27, CHR 0x27] @
     '', recording_mbid TEXT,'' @
     ''\<newline>  constraint "fk_track_release" foreign key ("release_id") '' @
     ''references "release" ("id") on delete cascade deferrable initially deferred'' @
     ''\<newline>)''\<close>

definition sql_30_2 :: string where
  \<open>sql_30_2 =
     ''INSERT INTO track_backup SELECT id, version, scan_version, track_number, '' @
     ''disc_number, name, duration, "1900-01-01", "1900-01-01", file_path, '' @
     ''file_last_write, file_added, has_cover, mbid, copyright, copyright_url, '' @
     ''release_id, total_disc, total_track, track_replay_gain, '' @
     ''release_replay_gain, disc_subtitle, recording_mbid FROM track''\<close>

definition sql_31_1 :: string where
  \<open>sql_31_1 =
     ''\<newline>CREATE TABLE IF NOT EXISTS "starred_artist" ('' @
     ''\<newline>  "id" integer primary key autoincrement,'' @
     ''\<newline>  "version" integer not null,'' @
     ''\<newline>  "scrobbler" integer not null,'' @
     ''\<newline>  "date_time" text,'' @
     ''\<newline>  "artist_id" bigint,'' @
     ''\<newline>  "user_id" bigint,'' @
     ''\<newline>  constraint "fk_starred_artist_artist" foreign key ("artist_id") '' @
     ''references "artist" ("id") on delete cascade deferrable initially deferred,'' @
     ''\<newline>  constraint "fk_starred_artist_user" foreign key ("user_id") '' @
     ''references "user" ("id") on delete cascade deferrable initially deferred'' @
     ''\<newline>)''\<close>

definition sql_31_2 :: string where
  \<open>sql_31_2 =
     ''\<newline>CREATE TABLE IF NOT EXISTS "starred_release" ('' @
     ''\<newline>  "id" integer primary key autoincrement,'' @
     ''\<newline>  "version" integer not null,'' @
     ''\<newline>  "scrobbler" integer not null,'' @
     ''\<newline>  "date_time" text,'' @
     ''\<newline>  "release_id" bigint,'' @
     ''\<newline>  "user_id" bigint,'' @
     ''\<newline>  constraint "fk_starred_release_release" foreign key '' @
     ''("release_id") references "release" ("id") on delete cascade deferrable '' @
     ''initially deferred,'' @
     ''\<newline>  constraint "fk_starred_release_user" foreign key ("user_id") '' @
     ''references "user" ("id") on delete cascade deferrable initially deferred'' @
     ''\<newline>)''\<close>

definition sql_31_3 :: string where
  \<open>sql_31_3 =
     ''\<newline>CREATE TABLE IF NOT EXISTS "starred_track" ('' @
     ''\<newline>  "id" integer primary key autoincrement,'' @
     ''\<newline>  "version" integer not null,'' @
     ''\<newline>  "scrobbler" integer not null,'' @
     ''\<newline>  "date_time" text,'' @
     ''\<newline>  "track_id" bigint,'' @
     ''\<newline>  "user_id" bigint,'' @
     ''\<newline>  constraint "fk_starred_track_track" foreign key ("track_id") '' @
     ''references "track" ("id") on delete cascade deferrable initially deferred,'' @
     ''\<newline>  constraint "fk_starred_track_user" foreign key ("user_id") '' @
     ''references "user" ("id") on delete cascade deferrable initially deferred'' @
     ''\<newline>)''\<close>

definition sql_31_4 :: string where
  \<open>sql_31_4 =
     ''\<newline>CREATE TABLE IF NOT EXISTS "listen" ('' @
     ''\<newline>  "id" integer primary key autoincrement,'' @
     ''\<newline>  "version" integer not null,'' @
     ''\<newline>  "date_time" text,'' @
     ''\<newline>  "scrobbler" integer not null,'' @
     ''\<newline>  "scrobbling_state" integer not null,'' @
     ''\<newline>  "track_id" bigint,'' @
     ''\<newline>  "user_id" bigint,'' @
     ''\<newline>  constraint "fk_listen_track" foreign key ("track_id") '' @
     ''references "track" ("id") on delete cascade deferrable initially deferred,'' @
     ''\<newline>  constraint "fk_listen_user" foreign key ("user_id") references '' @
     ''"user" ("id") on delete cascade deferrable initially deferred'' @
     ''\<newline>)''\<close>

definition migrationStep :: "nat \<Rightarrow> action list option" where
  "migrationStep version =
     (if version = 5 then Some [Execute ''DELETE FROM auth_token'']
      else if version = 6 then Some [IncScanVersion]
      else if version = 7 then Some
        [Execute ''DROP TABLE similarity_settings'',
         Execute ''DROP TABLE similarity_settings_feature'',
         Execute sql_7_1]
      else if version = 8 then Some [IncScanVersion]
      else if version = 9 then Some [Execute sql_9_1]
      else if version = 10 then Some
        [AddAudioFileExtension ''.m4b'',
         AddAudioFileExtension ''.alac'']
      else if version = 11 then Some [IncScanVersion]
      else if version = 12 then Some [IncScanVersion]
      else if version = 13 then Some [IncScanVersion]
      else if version = 14 then Some [IncScanVersion]
      else if version = 15 then Some [Execute sql_15_1]
      else if version = 16 then Some
        [Execute ''ALTER TABLE track ADD total_disc INTEGER NOT NULL DEFAULT(0)'',
         Execute ''ALTER TABLE track ADD total_track INTEGER NOT NULL DEFAULT(0)'',
         IncScanVersion]
      else if version = 17 then Some
        [Execute sql_17_1,
         Execute ''INSERT INTO release_backup SELECT id,version,name,mbid FROM release'',
         Execute ''DROP TABLE release'',
         Execute ''ALTER TABLE release_backup RENAME TO release'',
         IncScanVersion]
      else if version = 18 then Some [Execute sql_18_1]
      else if version = 19 then Some
        [Execute sql_19_1,
         Execute sql_19_2,
         Execute ''DROP TABLE user'',
         Execute ''ALTER TABLE user_backup RENAME TO user'']
      else if version = 20 then Some [Execute ''DROP TABLE subsonic_settings'']
      else if version = 21 then Some
        [Execute ''ALTER TABLE track ADD track_replay_gain REAL'',
         Execute ''ALTER TABLE track ADD release_replay_gain REAL'',
         IncScanVersion]
      else if version = 22 then Some
        [Execute sql_22_1,
         IncScanVersion]
      else if version = 23 then Some [IncScanVersion]
      else if version = 24 then Some
        [Execute ''ALTER TABLE user ADD auth_mode INTEGER NOT NULL DEFAULT(0)'']
      else if version = 25 then Some [IncScanVersion]
      else if version = 26 then Some [IncScanVersion]
      else if version = 27 then Some [IncScanVersion]
      else if version = 28 then Some
        [Execute sql_28_1,
         Execute sql_28_2,
         Execute ''DROP TABLE user'',
         Execute ''ALTER TABLE user_backup RENAME TO user'']
      else if version = 29 then Some
        [Execute ''ALTER TABLE tracklist_entry ADD date_time TEXT'',
         Execute ''ALTER TABLE user ADD listenbrainz_token TEXT'',
         Execute sql_29_1,
         Execute ''ALTER TABLE track ADD recording_mbid TEXT'',
         Execute ''DELETE from tracklist WHERE name = ?'',
         IncScanVersion]
      else if version = 30 then Some
        [Execute sql_30_1,
         Execute sql_30_2,
         Execute ''DROP TABLE track'',
         Execute ''ALTER TABLE track_backup RENAME TO track'',
         IncScanVersion]
      else if version = 31 then Some
        [Execute ''DROP TABLE user_artist_starred'',
         Execute ''DROP TABLE user_release_starred'',
         Execute ''DROP TABLE user_track_starred'',
         Execute sql_31_1,
         Execute sql_31_2,
         Execute sql_31_3,
         Execute sql_31_4]
      else None)"

text \<open>
  One call of a step, on the working copy of the open transaction. The result is the thrown
  exception, if any, and the working copy as the call left it.
  \<^verbatim>\<open>ScanSettings::get(session).modify()\<close> throws on the null ptr.
\<close>

fun runAction ::
  "(string \<Rightarrow> 'db \<Rightarrow> 'db option) \<Rightarrow> action \<Rightarrow> 'db store \<Rightarrow> error option \<times> 'db store" where
  "runAction exec (Execute q) tx =
     (case exec q (tables tx) of
        None \<Rightarrow> (Some DboException, tx)
      | Some d \<Rightarrow> (None, tx\<lparr>tables := d\<rparr>))"
| "runAction exec IncScanVersion tx =
     (case scanSettings tx of
        None \<Rightarrow> (Some DboException, tx)
      | Some ss \<Rightarrow> (None, tx\<lparr>scanSettings := Some (ss\<lparr>scanVersion := scanVersion ss + 1\<rparr>)\<rparr>))"
| "runAction exec (AddAudioFileExtension ext) tx =
     (case scanSettings tx of
        None \<Rightarrow> (Some DboException, tx)
      | Some ss \<Rightarrow> (None, tx\<lparr>scanSettings :=
                     Some (ss\<lparr>audioFileExtensions := insert ext (audioFileExtensions ss)\<rparr>)\<rparr>))"

fun runActions ::
  "(string \<Rightarrow> 'db \<Rightarrow> 'db option) \<Rightarrow> action list \<Rightarrow> 'db store \<Rightarrow> error option \<times> 'db store" where
  "runActions exec [] tx = (None, tx)"
| "runActions exec (a # as) tx =
     (case runAction exec a tx of
        (Some e, tx') \<Rightarrow> (Some e, tx')
      | (None, tx') \<Rightarrow> runActions exec as tx')"

subsection \<open>\<^verbatim>\<open>VersionInfo::getOrCreate\<close> and \<^verbatim>\<open>doDbMigration\<close>\<close>

text \<open>
  \<^verbatim>\<open>LMS_DATABASE_VERSION\<close> and the version a newly constructed \<^verbatim>\<open>VersionInfo\<close> holds are
  declared in \<^verbatim>\<open>Migration.hpp\<close>, which is not under src: both are parameters, \<open>target\<close> and
  \<open>fresh\<close>. \<open>None\<close> is the exception of \<^verbatim>\<open>find<VersionInfo>()\<close>.
\<close>

definition VersionInfo_getOrCreate :: "nat \<Rightarrow> 'db store \<Rightarrow> (nat \<times> 'db store) option" where
  "VersionInfo_getOrCreate fresh tx =
     (case versionInfo tx of
        Unreadable \<Rightarrow> None
      | NoRow \<Rightarrow> Some (fresh, tx\<lparr>versionInfo := Row fresh\<rparr>)
      | Row v \<Rightarrow> Some (v, tx))"

text \<open>
  One pass through the body of \<^verbatim>\<open>while (1)\<close>, from the store \<open>s\<close> as last committed. The
  transaction object lives for one pass. Leaving the pass by \<^verbatim>\<open>return\<close> or at the end of
  the body destroys it with no exception in flight, which commits the working copy; leaving
  by an exception rolls the working copy back, so the store stays \<open>s\<close>.
\<close>

datatype 'db pass = Return "'db store" | Throw error | Continue "'db store"

definition migrationPass ::
  "nat \<Rightarrow> nat \<Rightarrow> (string \<Rightarrow> 'db \<Rightarrow> 'db option) \<Rightarrow> 'db store \<Rightarrow> 'db pass" where
  "migrationPass target fresh exec s =
     (case VersionInfo_getOrCreate fresh s of
        None \<Rightarrow> Throw (LmsException outdatedMsg)
      | Some (version, tx) \<Rightarrow>
          if version = target then Return tx
          else
            (case migrationStep version of
               None \<Rightarrow> Throw (LmsException
                         (if target > version then outdatedMsg else binaryOutdatedMsg))
             | Some acts \<Rightarrow>
                 (case runActions exec acts tx of
                    (Some e, tx') \<Rightarrow> Throw e
                  | (None, tx') \<Rightarrow> Continue (tx'\<lparr>versionInfo := Row (Suc version)\<rparr>))))"

text \<open>The version that a pass starting from the store reads.\<close>

definition currentVersion :: "nat \<Rightarrow> 'db store \<Rightarrow> nat" where
  "currentVersion fresh s = (case versionInfo s of Row v \<Rightarrow> v | NoRow \<Rightarrow> fresh | Unreadable \<Rightarrow> 0)"

function migrationLoop ::
  "nat \<Rightarrow> nat \<Rightarrow> (string \<Rightarrow> 'db \<Rightarrow> 'db option) \<Rightarrow> 'db store \<Rightarrow> (error + unit) \<times> 'db store" where
  "migrationLoop target fresh exec s =
     (case migrationPass target fresh exec s of
        Return s' \<Rightarrow> (Inr (), s')
      | Throw e \<Rightarrow> (Inl e, s)
      | Continue s' \<Rightarrow> migrationLoop target fresh exec s')"
  by pat_completeness auto
termination
proof (relation "measure (\<lambda>(target, fresh, exec, s). 32 - currentVersion fresh s)")
  show "wf (measure (\<lambda>(target, fresh, exec, s). 32 - currentVersion fresh s))"
    by simp
next
  fix target fresh :: nat and exec :: "string \<Rightarrow> 'db \<Rightarrow> 'db option" and s s' :: "'db store"
  assume pass: "migrationPass target fresh exec s = Continue s'"
  have range: "5 \<le> v \<and> v \<le> 31" if "migrationStep v = Some acts" for v acts
    using that unfolding migrationStep_def by (simp split: if_splits)
  have "versionInfo s' = Row (Suc (currentVersion fresh s)) \<and> currentVersion fresh s \<le> 31"
    using pass
    unfolding migrationPass_def VersionInfo_getOrCreate_def currentVersion_def
    by (auto split: version_table.splits option.splits if_splits prod.splits dest: range)
  then have v: "versionInfo s' = Row (Suc (currentVersion fresh s))"
    and le: "currentVersion fresh s \<le> 31"
    by simp_all
  have "currentVersion fresh s' = Suc (currentVersion fresh s)"
    unfolding currentVersion_def [of fresh s'] v by simp
  with le show "((target, fresh, exec, s'), (target, fresh, exec, s))
          \<in> measure (\<lambda>(target, fresh, exec, s). 32 - currentVersion fresh s)"
    by simp
qed

declare migrationLoop.simps [simp del]

text \<open>
  \<^verbatim>\<open>ScopedNoForeignKeys\<close> switches the foreign keys off before the loop and on again when the
  function is left, by \<^verbatim>\<open>return\<close> or by an exception.
\<close>

definition doDbMigration ::
  "nat \<Rightarrow> nat \<Rightarrow> (string \<Rightarrow> 'db \<Rightarrow> 'db option) \<Rightarrow> 'db store \<Rightarrow> (error + unit) \<times> 'db store" where
  "doDbMigration target fresh exec s =
     (let (r, s') = migrationLoop target fresh exec (s\<lparr>foreignKeys := False\<rparr>)
      in (r, s'\<lparr>foreignKeys := True\<rparr>))"


section \<open>The change detector in the words of the specification\<close>


section \<open>Concrete inputs\<close>

definition aPath :: path where
  "aPath = ''/music/a.mp3''"

definition bPath :: path where
  "bPath = ''/music/b.mp3''"

definition emptySession :: session where
  "emptySession = \<lparr>tracks = [], artists = [], releases = [], genreRows = []\<rparr>"

definition noTags :: items where
  "noTags = \<lparr>Title = None, Artist = None, Album = None, Genre = None, TrackNumber = None,
     DiscNumber = None, Duration = None, CreationTime = None\<rparr>"

definition bandTags :: items where
  "bandTags = \<lparr>Title = Some ''Song'', Artist = Some ''Band'', Album = None, Genre = None,
     TrackNumber = Some 3, DiscNumber = None, Duration = None, CreationTime = None\<rparr>"

text \<open>A file with one audio stream and a probed duration of zero.\<close>

definition zeroDurationProbe :: probe where
  "zeroDurationProbe = \<lparr>last_write_time = Some 100, computeCrc = Some [1, 2],
     parse = Some noTags, mediaFile = Some \<lparr>audioStreams = 1, total_seconds = 0\<rparr>\<rparr>"

text \<open>A file with no audio stream.\<close>

definition noAudioProbe :: probe where
  "noAudioProbe = \<lparr>last_write_time = Some 100, computeCrc = Some [1, 2],
     parse = Some noTags, mediaFile = Some \<lparr>audioStreams = 0, total_seconds = 120\<rparr>\<rparr>"

text \<open>A valid audio file without tags, and one with tags.\<close>

definition untaggedProbe :: probe where
  "untaggedProbe = \<lparr>last_write_time = Some 100, computeCrc = Some [1, 2],
     parse = Some noTags, mediaFile = Some \<lparr>audioStreams = 1, total_seconds = 120\<rparr>\<rparr>"

definition bandProbe :: probe where
  "bandProbe = \<lparr>last_write_time = Some 100, computeCrc = Some [1, 2],
     parse = Some bandTags, mediaFile = Some \<lparr>audioStreams = 1, total_seconds = 120\<rparr>\<rparr>"

text \<open>A library that holds one Track, scanned earlier from \<open>aPath\<close>.\<close>

definition oldTrack :: track where
  "oldTrack = \<lparr>trackId = 1, path = aPath, checksum = [9], lastWriteTime = 50,
     name = ''Old title'', genreList = ''Rock'', genres = [2], artist = 2, release = 2,
     trackNumber = 7, discNumber = 2, duration = 180, creationTime = 10, scan_version = 0\<rparr>"

definition library :: session where
  "library = \<lparr>tracks = [oldTrack],
     artists = [(1, ''<None>''), (2, ''Band'')],
     releases = [(1, ''<None>''), (2, ''Album'')],
     genreRows = [(1, ''<None>''), (2, ''Rock'')]\<rparr>"

text \<open>The file of \<open>oldTrack\<close> untouched, and touched without a change of content.\<close>

definition untouchedProbe :: probe where
  "untouchedProbe = \<lparr>last_write_time = Some 50, computeCrc = Some [9],
     parse = Some noTags, mediaFile = Some \<lparr>audioStreams = 1, total_seconds = 120\<rparr>\<rparr>"

definition touchedProbe :: probe where
  "touchedProbe = \<lparr>last_write_time = Some 100, computeCrc = Some [9],
     parse = Some noTags, mediaFile = Some \<lparr>audioStreams = 1, total_seconds = 120\<rparr>\<rparr>"

text \<open>A filesystem on which only \<open>aPath\<close> is a regular file, and a library with two Tracks.\<close>

definition onlyA :: filesystem where
  "onlyA = \<lparr>exists = (\<lambda>p. Some (p = aPath)), is_regular = (\<lambda>p. Some (p = aPath))\<rparr>"

text \<open>A filesystem on which \<open>aPath\<close> is gone and the status of \<open>bPath\<close> cannot be read.\<close>

definition unreadableB :: filesystem where
  "unreadableB = \<lparr>exists = (\<lambda>p. if p = bPath then None else Some False),
     is_regular = (\<lambda>p. Some False)\<rparr>"

definition twoTracks :: session where
  "twoTracks = library\<lparr>tracks := [oldTrack, oldTrack\<lparr>trackId := 2, path := bPath\<rparr>]\<rparr>"

text \<open>An SQL engine that accepts every statement and appends it to a log.\<close>

definition logEngine :: "string \<Rightarrow> string list \<Rightarrow> string list option" where
  "logEngine q d = Some (d @ [q])"

definition someSettings :: scan_settings where
  "someSettings = \<lparr>scanVersion = 0, audioFileExtensions = {''.mp3''}\<rparr>"

text \<open>The calls of the step that the dispatch runs at version 16.\<close>

definition addTotalDisc :: string where
  "addTotalDisc = ''ALTER TABLE track ADD total_disc INTEGER NOT NULL DEFAULT(0)''"

definition addTotalTrack :: string where
  "addTotalTrack = ''ALTER TABLE track ADD total_track INTEGER NOT NULL DEFAULT(0)''"

definition step16 :: "action list" where
  "step16 = [Execute addTotalDisc, Execute addTotalTrack, IncScanVersion]"

definition storeAt :: "nat \<Rightarrow> scan_settings option \<Rightarrow> string list store" where
  "storeAt v ss = \<lparr>foreignKeys = True, versionInfo = Row v, scanSettings = ss, tables = []\<rparr>"

lemmas scan_defs =
  processAudioFile_def resolveTrack_def resolveArtist_def resolveRelease_def
  resolveGenreList_def genreNames_def setTrackFields_def Track_getByPath_def Track_create_def
  Track_modify_def Track_remove_def getNone_def getOrCreate_def getByName_def create_def
  newId_def noneName_def joinGenres_def filename_def Let_def

lemmas input_defs =
  aPath_def bPath_def emptySession_def noTags_def bandTags_def zeroDurationProbe_def
  noAudioProbe_def untaggedProbe_def bandProbe_def oldTrack_def library_def
  untouchedProbe_def touchedProbe_def onlyA_def unreadableB_def twoTracks_def


section \<open>Helper lemmas\<close>





lemma migrationStep_Some_iff: "(migrationStep v \<noteq> None) = (5 \<le> v \<and> v \<le> 31)"
  unfolding migrationStep_def by (simp; arith)

lemma runAction_total:
  assumes "\<forall>q d. exec q d \<noteq> None" and "scanSettings tx \<noteq> None"
  shows "\<exists>tx'. runAction exec a tx = (None, tx') \<and> scanSettings tx' \<noteq> None"
  using assms by (cases a) (auto split: option.splits)

lemma runActions_total:
  assumes "\<forall>q d. exec q d \<noteq> None" and "scanSettings tx \<noteq> None"
  shows "\<exists>tx'. runActions exec acts tx = (None, tx') \<and> scanSettings tx' \<noteq> None"
  using assms(2)
proof (induction acts arbitrary: tx)
  case Nil
  then show ?case by simp
next
  case (Cons a acts)
  from runAction_total [OF assms(1) Cons.prems, of a]
  obtain tx1 where a: "runAction exec a tx = (None, tx1)" and s: "scanSettings tx1 \<noteq> None"
    by blast
  from Cons.IH [OF s] a show ?case by simp
qed

lemma migrationLoop_Inr:
  "migrationLoop target fresh exec s = (Inr u, s') \<Longrightarrow> versionInfo s' = Row target"
proof (induction target fresh exec s rule: migrationLoop.induct)
  case (1 target fresh exec s)
  show ?case
  proof (cases "migrationPass target fresh exec s")
    case (Return t)
    with "1.prems" have "s' = t" by (simp add: migrationLoop.simps)
    with Return show ?thesis
      unfolding migrationPass_def VersionInfo_getOrCreate_def
      by (auto split: version_table.splits option.splits if_splits prod.splits)
  next
    case (Throw e)
    with "1.prems" show ?thesis by (simp add: migrationLoop.simps)
  next
    case (Continue t)
    with "1.prems" have "migrationLoop target fresh exec t = (Inr u, s')"
      by (simp add: migrationLoop.simps)
    from "1.IH" [OF Continue this] show ?thesis .
  qed
qed

lemma migrationLoop_reaches:
  assumes total: "\<forall>q d. exec q d \<noteq> None"
  shows "versionInfo s = Row V \<Longrightarrow> scanSettings s \<noteq> None \<Longrightarrow> V \<le> target \<Longrightarrow>
         \<forall>v. V \<le> v \<and> v < target \<longrightarrow> migrationStep v \<noteq> None \<Longrightarrow>
         \<exists>s'. migrationLoop target fresh exec s = (Inr (), s')"
proof (induction "target - V" arbitrary: s V)
  case 0
  then have "V = target" by simp
  with "0.prems"(1) have "migrationPass target fresh exec s = Return s"
    by (simp add: migrationPass_def VersionInfo_getOrCreate_def)
  then show ?case by (simp add: migrationLoop.simps)
next
  case (Suc n)
  then have lt: "V < target" by simp
  with Suc.prems(4) obtain acts where st: "migrationStep V = Some acts" by auto
  from runActions_total [OF total Suc.prems(2), of acts]
  obtain tx where run: "runActions exec acts s = (None, tx)" and ss: "scanSettings tx \<noteq> None"
    by blast
  let ?t = "tx\<lparr>versionInfo := Row (Suc V)\<rparr>"
  from Suc.prems(1) lt st run have pass: "migrationPass target fresh exec s = Continue ?t"
    by (simp add: migrationPass_def VersionInfo_getOrCreate_def)
  have "\<exists>s'. migrationLoop target fresh exec ?t = (Inr (), s')"
  proof (rule Suc.hyps(1))
    show "n = target - Suc V" using Suc.hyps(2) by simp
    show "versionInfo ?t = Row (Suc V)" by simp
    show "scanSettings ?t \<noteq> None" using ss by simp
    show "Suc V \<le> target" using lt by simp
    show "\<forall>v. Suc V \<le> v \<and> v < target \<longrightarrow> migrationStep v \<noteq> None"
      using Suc.prems(4) by simp
  qed
  with pass show ?case by (simp add: migrationLoop.simps)
qed


lemma runAction_fk:
  "runAction exec a tx = (r, tx') \<Longrightarrow>
     runAction exec a (tx\<lparr>foreignKeys := b\<rparr>) = (r, tx'\<lparr>foreignKeys := b\<rparr>)"
  by (cases a) (auto split: option.splits)

lemma runActions_fk:
  "runActions exec acts tx = (r, tx') \<Longrightarrow>
     runActions exec acts (tx\<lparr>foreignKeys := b\<rparr>) = (r, tx'\<lparr>foreignKeys := b\<rparr>)"
proof (induction acts arbitrary: tx)
  case Nil
  then show ?case by auto
next
  case (Cons a acts)
  obtain r1 tx1 where a: "runAction exec a tx = (r1, tx1)" by (cases "runAction exec a tx")
  show ?case
  proof (cases r1)
    case None
    with Cons.prems a have "runActions exec acts tx1 = (r, tx')" by simp
    from Cons.IH [OF this] runAction_fk [OF a, of b] None show ?thesis by simp
  next
    case (Some e)
    with Cons.prems a have "r = Some e" and "tx' = tx1" by simp_all
    with runAction_fk [OF a, of b] Some show ?thesis by simp
  qed
qed

lemma VersionInfo_getOrCreate_fk:
  "VersionInfo_getOrCreate fresh (s\<lparr>foreignKeys := b\<rparr>) =
     map_option (\<lambda>(v, tx). (v, tx\<lparr>foreignKeys := b\<rparr>)) (VersionInfo_getOrCreate fresh s)"
  by (simp add: VersionInfo_getOrCreate_def split: version_table.splits)

lemma migrationPass_fk:
  "migrationPass target fresh exec (s\<lparr>foreignKeys := b\<rparr>) =
     (case migrationPass target fresh exec s of
        Return t \<Rightarrow> Return (t\<lparr>foreignKeys := b\<rparr>)
      | Throw e \<Rightarrow> Throw e
      | Continue t \<Rightarrow> Continue (t\<lparr>foreignKeys := b\<rparr>))"
proof (cases "VersionInfo_getOrCreate fresh s")
  case None
  then show ?thesis by (simp add: migrationPass_def VersionInfo_getOrCreate_fk)
next
  case (Some p)
  obtain v tx where p: "p = (v, tx)" by (cases p)
  note get = Some [unfolded p]
  show ?thesis
  proof (cases "migrationStep v")
    case None
    with get show ?thesis by (simp add: migrationPass_def VersionInfo_getOrCreate_fk)
  next
    case step: (Some acts)
    obtain r w where run: "runActions exec acts tx = (r, w)"
      by (cases "runActions exec acts tx")
    from runActions_fk [OF run, of b] get step run show ?thesis
      by (cases r) (simp_all add: migrationPass_def VersionInfo_getOrCreate_fk)
  qed
qed

lemma migrationLoop_fk:
  "migrationLoop target fresh exec (s\<lparr>foreignKeys := b\<rparr>) =
     (case migrationLoop target fresh exec s of (r, s') \<Rightarrow> (r, s'\<lparr>foreignKeys := b\<rparr>))"
proof (induction target fresh exec s rule: migrationLoop.induct)
  case (1 target fresh exec s)
  show ?case
  proof (cases "migrationPass target fresh exec s")
    case (Return t)
    then show ?thesis
      by (simp add: migrationLoop.simps [of _ _ _ s] migrationLoop.simps [of _ _ _ "s\<lparr>foreignKeys := b\<rparr>"]
            migrationPass_fk)
  next
    case (Throw e)
    then show ?thesis
      by (simp add: migrationLoop.simps [of _ _ _ s] migrationLoop.simps [of _ _ _ "s\<lparr>foreignKeys := b\<rparr>"]
            migrationPass_fk)
  next
    case (Continue t)
    from "1.IH" [OF Continue] Continue show ?thesis
      by (simp add: migrationLoop.simps [of _ _ _ s] migrationLoop.simps [of _ _ _ "s\<lparr>foreignKeys := b\<rparr>"]
            migrationPass_fk)
  qed
qed

lemma doDbMigration_loop:
  "doDbMigration target fresh exec s =
     (case migrationLoop target fresh exec s of (r, s') \<Rightarrow> (r, s'\<lparr>foreignKeys := True\<rparr>))"
  unfolding doDbMigration_def by (simp add: migrationLoop_fk split: prod.splits)

lemma migrationLoop_Inl:
  "migrationLoop target fresh exec s = (Inl e, s') \<Longrightarrow> migrationPass target fresh exec s' = Throw e"
proof (induction target fresh exec s rule: migrationLoop.induct)
  case (1 target fresh exec s)
  show ?case
  proof (cases "migrationPass target fresh exec s")
    case (Return t)
    with "1.prems" show ?thesis by (simp add: migrationLoop.simps)
  next
    case (Throw e')
    with "1.prems" show ?thesis by (simp add: migrationLoop.simps)
  next
    case (Continue t)
    with "1.prems" have "migrationLoop target fresh exec t = (Inl e, s')"
      by (simp add: migrationLoop.simps)
    from "1.IH" [OF Continue this] show ?thesis .
  qed
qed



















section \<open>The scan: theorems\<close>

text \<open>
  Claim C1. A file whose probed duration is zero should leave no Track for its path. With no
  Track stored for the path, the zero-duration branch prints its line and removes nothing;
  it has no \<^verbatim>\<open>return\<close>, so the function goes on and creates a Track for the file.
\<close>

theorem zero_duration_file_is_added:
  "processAudioFile aPath zeroDurationProbe emptySession =
     (\<lparr>tracks = [\<lparr>trackId = 1, path = aPath, checksum = [1, 2], lastWriteTime = 100,
                  name = ''a.mp3'', genreList = [], genres = [1], artist = 1, release = 1,
                  trackNumber = 0, discNumber = 0, duration = 0, creationTime = 0,
                  scan_version = 0\<rparr>],
       artists = [(1, ''<None>'')], releases = [(1, ''<None>'')],
       genreRows = [(1, ''<None>'')]\<rparr>,
      [Parsing aPath, SkippedDurationNull aPath, Adding aPath, GenreListIs []])"
  by (simp add: scan_defs input_defs)

text \<open>
  With a Track stored for the path, the same file makes the branch remove the row; the
  setters that follow write nothing, and no Track is left for the path.
\<close>

lemma zero_duration_removes_existing_track:
  "processAudioFile aPath zeroDurationProbe library =
     (library\<lparr>tracks := []\<rparr>,
      [Parsing aPath, SkippedDurationNull aPath, Updating aPath, GenreListIs []])"
  by (simp add: scan_defs input_defs)

text \<open>
  Claim C7. A file with no audio stream should leave no Track for its path. The branch
  returns without removing anything: a Track stored earlier for the path stays.
\<close>

theorem no_audio_stream_keeps_track:
  "processAudioFile aPath noAudioProbe library = (library, [Parsing aPath, SkippedNoAudio aPath])
   \<and> Track_getByPath library aPath = Some oldTrack"
  by (simp add: scan_defs input_defs)

text \<open>
  What the function does for a file with a stored record, whose timestamp and checksum can
  be read: it skips (the session is unchanged and the metadata parser is not called)
  exactly when the stored timestamp equals the file's or the stored checksum equals the
  file's, and parses the file in every other case. The \<open>scan_version\<close> of the record has no
  part in it.
\<close>

lemma processAudioFile_skips_iff:
  assumes "Track_getByPath s file = Some t" and "last_write_time pr = Some lwt"
    and "computeCrc pr = Some crc"
  shows "((fst (processAudioFile file pr s) = s \<and>
           Parsing file \<notin> set (snd (processAudioFile file pr s)))
           = (lastWriteTime t = lwt \<or> checksum t = crc)) \<and>
         ((Parsing file \<in> set (snd (processAudioFile file pr s)))
           = (\<not> (lastWriteTime t = lwt \<or> checksum t = crc)))"
  using assms
  by (auto simp: processAudioFile_def Let_def split: option.splits prod.splits if_splits)




text \<open>
  Claim C10. The stored checksum equals the file's and the stored timestamp differs: the
  function returns at the checksum match with the session exactly as it was, so the stored
  timestamp keeps its old value. The next scan of the same file is in the same situation:
  it compares the timestamps, computes the checksum again (an exception of \<^verbatim>\<open>computeCrc\<close>
  would surface) and returns at the same place.
\<close>

theorem checksum_match_leaves_track:
  assumes "Track_getByPath s file = Some t" and "last_write_time pr = Some lwt"
    and "lastWriteTime t \<noteq> lwt" and "computeCrc pr = Some crc" and "checksum t = crc"
  shows "processAudioFile file pr s = (s, [SkippedChecksum file]) \<and>
         processAudioFile file pr (fst (processAudioFile file pr s)) = (s, [SkippedChecksum file]) \<and>
         processAudioFile file (pr\<lparr>computeCrc := None\<rparr>) s = (s, [ExceptionWhileParsing file])"
  using assms by (simp add: processAudioFile_def)

theorem checksum_match_leaves_track_witness:
  "Track_getByPath library aPath = Some oldTrack \<and> lastWriteTime oldTrack \<noteq> 100 \<and>
   processAudioFile aPath touchedProbe library = (library, [SkippedChecksum aPath])"
proof -
  have t: "Track_getByPath library aPath = Some oldTrack"
    by (simp add: Track_getByPath_def input_defs)
  have l: "last_write_time touchedProbe = Some 100" "computeCrc touchedProbe = Some [9]"
    by (simp_all add: touchedProbe_def)
  have o: "lastWriteTime oldTrack \<noteq> 100" "checksum oldTrack = [9]"
    by (simp_all add: oldTrack_def)
  from checksum_match_leaves_track [OF t l(1) o(1) l(2) o(2)] t o show ?thesis by simp
qed


text \<open>
  Claim C6, as stated, fails: the file of \<open>oldTrack\<close> is scanned again and carries no tags;
  the Track keeps the track number of the previous scan.
\<close>

theorem reprocess_keeps_untagged_fields:
  "parse untaggedProbe = Some noTags \<and> TrackNumber noTags = None \<and>
   trackNumber oldTrack = 7 \<and>
   map trackNumber (tracks (fst (processAudioFile aPath untaggedProbe library))) = [7]"
  by (simp add: scan_defs input_defs)

text \<open>
  Claim C6, amended. A file with a stored Track is processed again (timestamp and checksum
  have changed, the file has an audio stream and a duration other than zero). Only the row
  of that Track changes. Its checksum, timestamp, title (the tag, or the file name), genre
  text, genres, Artist and Release are always overwritten. Its track number, disc number,
  duration and creation time are overwritten when the tag is present, and keep the value of
  the previous scan when the tag is absent.
\<close>

theorem reprocess_overwrites:
  assumes "Track_getByPath s file = Some t" and "last_write_time pr = Some lwt"
    and "lastWriteTime t \<noteq> lwt" and "computeCrc pr = Some crc" and "checksum t \<noteq> crc"
    and "parse pr = Some its" and "mediaFile pr = Some mf"
    and "audioStreams mf \<noteq> 0" and "total_seconds mf \<noteq> 0"
  shows "tracks (fst (processAudioFile file pr s)) =
     map (\<lambda>x. if trackId x = trackId t
        then x\<lparr>checksum := crc, lastWriteTime := lwt,
               name := (case Title its of Some n \<Rightarrow> n | None \<Rightarrow> filename file),
               genreList := joinGenres (genreNames its),
               genres := fst (resolveGenreList its (genreRows s)),
               artist := fst (resolveArtist its (artists s)),
               release := fst (resolveRelease its (releases s)),
               trackNumber := (case TrackNumber its of Some n \<Rightarrow> n | None \<Rightarrow> trackNumber x),
               discNumber := (case DiscNumber its of Some n \<Rightarrow> n | None \<Rightarrow> discNumber x),
               duration := (case Duration its of Some d \<Rightarrow> d | None \<Rightarrow> duration x),
               creationTime := (case CreationTime its of Some c \<Rightarrow> c | None \<Rightarrow> creationTime x)\<rparr>
        else x) (tracks s)"
proof -
  have set: "setTrackFields file lwt crc its a r gs x =
      x\<lparr>checksum := crc, lastWriteTime := lwt,
        name := (case Title its of Some n \<Rightarrow> n | None \<Rightarrow> filename file),
        genreList := joinGenres (genreNames its), genres := gs, artist := a, release := r,
        trackNumber := (case TrackNumber its of Some n \<Rightarrow> n | None \<Rightarrow> trackNumber x),
        discNumber := (case DiscNumber its of Some n \<Rightarrow> n | None \<Rightarrow> discNumber x),
        duration := (case Duration its of Some d \<Rightarrow> d | None \<Rightarrow> duration x),
        creationTime := (case CreationTime its of Some c \<Rightarrow> c | None \<Rightarrow> creationTime x)\<rparr>"
    for a r gs x
    by (simp add: setTrackFields_def Let_def split: option.splits)
  from assms show ?thesis
    by (simp add: processAudioFile_def resolveTrack_def Track_modify_def case_prod_beta Let_def set)
qed

theorem reprocess_overwrites_witness:
  "Track_getByPath library aPath = Some oldTrack \<and>
   lastWriteTime oldTrack \<noteq> 100 \<and> checksum oldTrack \<noteq> [1, 2] \<and>
   tracks (fst (processAudioFile aPath bandProbe library)) =
     [oldTrack\<lparr>checksum := [1, 2], lastWriteTime := 100, name := ''Song'', genreList := [],
               genres := [1], artist := 2, release := 1, trackNumber := 3\<rparr>]"
proof -
  have t: "Track_getByPath library aPath = Some oldTrack"
    by (simp add: Track_getByPath_def input_defs)
  have p: "last_write_time bandProbe = Some 100" "computeCrc bandProbe = Some [1, 2]"
    "parse bandProbe = Some bandTags"
    "mediaFile bandProbe = Some \<lparr>audioStreams = 1, total_seconds = 120\<rparr>"
    by (simp_all add: bandProbe_def)
  have o: "lastWriteTime oldTrack \<noteq> 100" "checksum oldTrack \<noteq> [1, 2]"
    by (simp_all add: oldTrack_def)
  have m: "audioStreams \<lparr>audioStreams = 1, total_seconds = 120\<rparr> \<noteq> 0"
    "total_seconds \<lparr>audioStreams = 1, total_seconds = 120\<rparr> \<noteq> 0"
    by simp_all
  from reprocess_overwrites [OF t p(1) o(1) p(2) o(2) p(3) p(4) m] t o
  show ?thesis
    by (simp add: scan_defs input_defs)
qed



section \<open>The migration engine: theorems\<close>

text \<open>
  Claim C3. Start from a stored version \<open>V\<close> such that every version from \<open>V\<close> up to the
  target has a step in the dispatch. \<open>doDbMigration\<close> is a total function, so it terminates,
  by \<^verbatim>\<open>return\<close> or by an exception. Whenever it returns, the stored version is the target;
  and it does return when no step throws, which is the case when the SQL engine accepts
  every statement and the \<^verbatim>\<open>ScanSettings\<close> row exists.
\<close>

theorem doDbMigration_reaches_target:
  assumes "versionInfo s = Row V" and "V \<le> target"
    and "\<forall>v. V \<le> v \<and> v < target \<longrightarrow> migrationStep v \<noteq> None"
  shows "(fst (doDbMigration target fresh exec s) = Inr () \<longrightarrow>
            versionInfo (snd (doDbMigration target fresh exec s)) = Row target) \<and>
         ((\<forall>q d. exec q d \<noteq> None) \<and> scanSettings s \<noteq> None \<longrightarrow>
            fst (doDbMigration target fresh exec s) = Inr ())"
proof (intro conjI impI)
  assume "fst (doDbMigration target fresh exec s) = Inr ()"
  then obtain s' where "migrationLoop target fresh exec s = (Inr (), s')"
    by (auto simp: doDbMigration_loop split: prod.splits)
  from migrationLoop_Inr [OF this] this
  show "versionInfo (snd (doDbMigration target fresh exec s)) = Row target"
    by (simp add: doDbMigration_loop)
next
  assume "(\<forall>q d. exec q d \<noteq> None) \<and> scanSettings s \<noteq> None"
  then have total: "\<forall>q d. exec q d \<noteq> None" and ss: "scanSettings s \<noteq> None" by simp_all
  from migrationLoop_reaches [OF total assms(1) ss assms(2) assms(3)]
  obtain s' where "migrationLoop target fresh exec s = (Inr (), s')" by blast
  then show "fst (doDbMigration target fresh exec s) = Inr ()"
    by (simp add: doDbMigration_loop)
qed

theorem doDbMigration_reaches_target_witness:
  "versionInfo (storeAt 5 (Some someSettings)) = Row 5 \<and> (5::nat) \<le> 32 \<and>
   migrationStep 5 \<noteq> None \<and> migrationStep 31 \<noteq> None \<and>
   (\<forall>q d. logEngine q d \<noteq> None) \<and> scanSettings (storeAt 5 (Some someSettings)) \<noteq> None \<and>
   fst (doDbMigration 32 0 logEngine (storeAt 5 (Some someSettings))) = Inr () \<and>
   versionInfo (snd (doDbMigration 32 0 logEngine (storeAt 5 (Some someSettings)))) = Row 32"
proof -
  have v: "versionInfo (storeAt 5 (Some someSettings)) = Row 5"
    by (simp add: storeAt_def)
  have le: "(5::nat) \<le> 32" by simp
  have steps: "\<forall>v. 5 \<le> v \<and> v < 32 \<longrightarrow> migrationStep v \<noteq> None"
  proof (intro allI impI)
    fix v :: nat
    assume "5 \<le> v \<and> v < 32"
    then have "5 \<le> v \<and> v \<le> 31" by simp
    then show "migrationStep v \<noteq> None" by (simp only: migrationStep_Some_iff)
  qed
  have engine: "\<forall>q d. logEngine q d \<noteq> None"
    by (simp add: logEngine_def)
  have ss: "scanSettings (storeAt 5 (Some someSettings)) \<noteq> None"
    by (simp add: storeAt_def)
  note run = doDbMigration_reaches_target [OF v le steps, of 0 logEngine]
  from run [THEN conjunct2] engine ss
  have ret: "fst (doDbMigration 32 0 logEngine (storeAt 5 (Some someSettings))) = Inr ()"
    by blast
  from run [THEN conjunct1] ret
  have "versionInfo (snd (doDbMigration 32 0 logEngine (storeAt 5 (Some someSettings)))) = Row 32"
    by blast
  moreover have "migrationStep 5 \<noteq> None" and "migrationStep 31 \<noteq> None"
    by (simp_all add: migrationStep_def)
  ultimately show ?thesis using v le engine ss ret by blast
qed

text \<open>
  Claim C5. The stored version has no step in the dispatch and is not the target:
  \<open>doDbMigration\<close> throws an \<^verbatim>\<open>LmsException\<close> and the store is as before (the foreign keys
  switched on again). The message is the "outdated database" one when the target is
  greater than the stored version, and the "binary outdated" one otherwise; the two differ.
\<close>

theorem doDbMigration_unknown_version:
  assumes "versionInfo s = Row v" and "migrationStep v = None" and "v \<noteq> target"
  shows "doDbMigration target fresh exec s =
           (Inl (LmsException (if target > v then outdatedMsg else binaryOutdatedMsg)),
            s\<lparr>foreignKeys := True\<rparr>) \<and>
         outdatedMsg \<noteq> binaryOutdatedMsg"
proof
  from assms have "migrationPass target fresh exec s =
      Throw (LmsException (if target > v then outdatedMsg else binaryOutdatedMsg))"
    by (simp add: migrationPass_def VersionInfo_getOrCreate_def)
  then show "doDbMigration target fresh exec s =
           (Inl (LmsException (if target > v then outdatedMsg else binaryOutdatedMsg)),
            s\<lparr>foreignKeys := True\<rparr>)"
    by (simp add: doDbMigration_loop migrationLoop.simps)
  show "outdatedMsg \<noteq> binaryOutdatedMsg"
    by (simp add: outdatedMsg_def binaryOutdatedMsg_def)
qed

theorem doDbMigration_unknown_version_witness:
  "migrationStep 3 = None \<and> migrationStep 40 = None \<and>
   doDbMigration 32 0 logEngine (storeAt 3 None) = (Inl (LmsException outdatedMsg), storeAt 3 None) \<and>
   doDbMigration 32 0 logEngine (storeAt 40 None) =
     (Inl (LmsException binaryOutdatedMsg), storeAt 40 None)"
proof -
  have n: "migrationStep 3 = None" "migrationStep 40 = None"
    by (simp_all add: migrationStep_def)
  have v: "versionInfo (storeAt 3 None) = Row 3" "versionInfo (storeAt 40 None) = Row 40"
    by (simp_all add: storeAt_def)
  have ne: "(3::nat) \<noteq> 32" "(40::nat) \<noteq> 32" by simp_all
  have id: "(storeAt 3 None)\<lparr>foreignKeys := True\<rparr> = storeAt 3 None"
    "(storeAt 40 None)\<lparr>foreignKeys := True\<rparr> = storeAt 40 None"
    by (simp_all add: storeAt_def)
  from doDbMigration_unknown_version [OF v(1) n(1) ne(1), of 0 logEngine, THEN conjunct1] id
  have low: "doDbMigration 32 0 logEngine (storeAt 3 None) =
      (Inl (LmsException outdatedMsg), storeAt 3 None)"
    by simp
  from doDbMigration_unknown_version [OF v(2) n(2) ne(2), of 0 logEngine, THEN conjunct1] id
  have high: "doDbMigration 32 0 logEngine (storeAt 40 None) =
      (Inl (LmsException binaryOutdatedMsg), storeAt 40 None)"
    by simp
  from n low high show ?thesis by blast
qed

text \<open>
  Claim C4. The stored version \<open>v\<close> has a step and is not the target. If a call of the step
  throws, whatever the calls before it did to the working copy, \<open>doDbMigration\<close> ends with
  that exception and the store is as before: same version, same tables, same settings. If
  no call throws, the run continues from the store that holds the step's changes and the
  version \<open>v + 1\<close> together. A run that ends with an exception leaves a store from which the
  next run ends with the same exception and the same store: it meets the same step again.
\<close>

theorem migration_step_all_or_nothing:
  assumes "versionInfo s = Row v" and "v \<noteq> target" and "migrationStep v = Some acts"
  shows "doDbMigration target fresh exec s =
           (case runActions exec acts s of
              (Some e, w) \<Rightarrow> (Inl e, s\<lparr>foreignKeys := True\<rparr>)
            | (None, w) \<Rightarrow> doDbMigration target fresh exec (w\<lparr>versionInfo := Row (Suc v)\<rparr>)) \<and>
         (\<forall>e s'. doDbMigration target fresh exec s = (Inl e, s') \<longrightarrow>
                  doDbMigration target fresh exec s' = (Inl e, s'))"
proof (intro conjI allI impI)
  show "doDbMigration target fresh exec s =
           (case runActions exec acts s of
              (Some e, w) \<Rightarrow> (Inl e, s\<lparr>foreignKeys := True\<rparr>)
            | (None, w) \<Rightarrow> doDbMigration target fresh exec (w\<lparr>versionInfo := Row (Suc v)\<rparr>))"
  proof (cases "runActions exec acts s")
    case (Pair r w)
    show ?thesis
    proof (cases r)
      case None
      with Pair assms have "migrationPass target fresh exec s =
          Continue (w\<lparr>versionInfo := Row (Suc v)\<rparr>)"
        by (simp add: migrationPass_def VersionInfo_getOrCreate_def)
      with Pair None show ?thesis
        by (simp add: doDbMigration_loop migrationLoop.simps [of _ _ _ s])
    next
      case (Some e)
      with Pair assms have "migrationPass target fresh exec s = Throw e"
        by (simp add: migrationPass_def VersionInfo_getOrCreate_def)
      with Pair Some show ?thesis
        by (simp add: doDbMigration_loop migrationLoop.simps [of _ _ _ s])
    qed
  qed
next
  fix e s'
  assume "doDbMigration target fresh exec s = (Inl e, s')"
  then obtain t where loop: "migrationLoop target fresh exec s = (Inl e, t)"
    and s': "s' = t\<lparr>foreignKeys := True\<rparr>"
    by (auto simp: doDbMigration_loop split: prod.splits)
  from migrationLoop_Inl [OF loop] have "migrationLoop target fresh exec t = (Inl e, t)"
    by (simp add: migrationLoop.simps)
  then show "doDbMigration target fresh exec s' = (Inl e, s')"
    unfolding s' by (simp add: doDbMigration_loop migrationLoop_fk)
qed

theorem migration_step_all_or_nothing_witness:
  "runActions logEngine step16 (storeAt 16 None) =
     (Some DboException, (storeAt 16 None)\<lparr>tables := [addTotalDisc, addTotalTrack]\<rparr>) \<and>
   doDbMigration 32 0 logEngine (storeAt 16 None) = (Inl DboException, storeAt 16 None) \<and>
   doDbMigration 17 0 logEngine (storeAt 16 (Some someSettings)) =
     (Inr (), \<lparr>foreignKeys = True, versionInfo = Row 17,
               scanSettings = Some (someSettings\<lparr>scanVersion := 1\<rparr>),
               tables = [addTotalDisc, addTotalTrack]\<rparr>)"
proof -
  have st: "migrationStep 16 = Some step16"
    by (simp add: migrationStep_def step16_def addTotalDisc_def addTotalTrack_def)
  have v: "versionInfo (storeAt 16 ss) = Row 16" for ss
    by (simp add: storeAt_def)
  have fail: "runActions logEngine step16 (storeAt 16 None) =
     (Some DboException, (storeAt 16 None)\<lparr>tables := [addTotalDisc, addTotalTrack]\<rparr>)"
    by (simp add: step16_def storeAt_def logEngine_def)
  have ok: "runActions logEngine step16 (storeAt 16 (Some someSettings)) =
     (None, \<lparr>foreignKeys = True, versionInfo = Row 16,
             scanSettings = Some (someSettings\<lparr>scanVersion := 1\<rparr>),
             tables = [addTotalDisc, addTotalTrack]\<rparr>)"
    by (simp add: step16_def storeAt_def logEngine_def someSettings_def)
  have last: "doDbMigration 17 0 logEngine
       \<lparr>foreignKeys = True, versionInfo = Row 17,
        scanSettings = Some (someSettings\<lparr>scanVersion := 1\<rparr>),
        tables = [addTotalDisc, addTotalTrack]\<rparr> =
     (Inr (), \<lparr>foreignKeys = True, versionInfo = Row 17,
               scanSettings = Some (someSettings\<lparr>scanVersion := 1\<rparr>),
               tables = [addTotalDisc, addTotalTrack]\<rparr>)"
    by (simp add: doDbMigration_loop migrationLoop.simps migrationPass_def
          VersionInfo_getOrCreate_def)
  have ne: "(16::nat) \<noteq> 32" "(16::nat) \<noteq> 17" by simp_all
  note failing = migration_step_all_or_nothing [OF v [of None] ne(1) st, of 0 logEngine]
  note passing = migration_step_all_or_nothing [OF v [of "Some someSettings"] ne(2) st,
      of 0 logEngine]
  have id: "(storeAt 16 None)\<lparr>foreignKeys := True\<rparr> = storeAt 16 None"
    by (simp add: storeAt_def)
  from failing [THEN conjunct1] fail id
  have run1: "doDbMigration 32 0 logEngine (storeAt 16 None) = (Inl DboException, storeAt 16 None)"
    by simp
  from failing [THEN conjunct2, rule_format, OF run1]
  have run2: "doDbMigration 32 0 logEngine (storeAt 16 None) = (Inl DboException, storeAt 16 None)" .
  from passing [THEN conjunct1] ok last
  have run3: "doDbMigration 17 0 logEngine (storeAt 16 (Some someSettings)) =
     (Inr (), \<lparr>foreignKeys = True, versionInfo = Row 17,
               scanSettings = Some (someSettings\<lparr>scanVersion := 1\<rparr>),
               tables = [addTotalDisc, addTotalTrack]\<rparr>)"
    by simp
  from fail run2 run3 show ?thesis by blast
qed

end
